theory Spec2Isabelle
  imports Main "HOL-Library.Word"
begin

unbundle bit_operations_syntax

section \<open>Values, exceptions and results\<close>

text \<open>
  The module under study is Python 2 code, so a \<open>str\<close> is a sequence of bytes: it is
  modelled as \<^typ>\<open>string\<close> (a list of 8-bit characters).  A JSON document decodes to
  one of the Python values below.  An integer literal becomes \<open>JInt\<close>; a literal with a
  fraction or an exponent is kept as its text (\<open>JFloat\<close>), since no function here
  computes with it.  A text value is kept as its UTF-8 bytes.
\<close>

datatype json =
    JNull
  | JBool bool
  | JInt int
  | JFloat string
  | JString string
  | JArray "json list"
  | JObject "(string \<times> json) list"

datatype py_exn =
    TypeError
  | ValueError
  | AttributeError
  | KeyError
  | UnicodeDecodeError
  | AssertionError
  | URLError
  | GraphAPIError json json

type_synonym 'a result = "py_exn + 'a"

abbreviation Raise :: "py_exn \<Rightarrow> 'a result" where
  "Raise \<equiv> Inl"

abbreviation Return :: "'a \<Rightarrow> 'a result" where
  "Return \<equiv> Inr"

section \<open>The base64 decoder of the standard library\<close>

text \<open>
  \<open>base64.b64decode(s)\<close> of Python 2.7 calls \<open>binascii.a2b_base64(s)\<close> and turns its
  \<open>binascii.Error\<close> into a \<open>TypeError\<close>.  The decoder is lenient: it walks over the
  input once, skips every character outside the alphabet, stops at a pad sequence, and
  fails only when bits are left over at the end ("Incorrect padding").
\<close>

definition table_a2b_base64 :: "char \<Rightarrow> nat option" where
  "table_a2b_base64 c =
     (let n = (of_char c :: nat) in
      if 65 \<le> n \<and> n \<le> 90 then Some (n - 65)
      else if 97 \<le> n \<and> n \<le> 122 then Some (n - 71)
      else if 48 \<le> n \<and> n \<le> 57 then Some (n + 4)
      else if n = 43 then Some 62
      else if n = 47 then Some 63
      else None)"

definition BASE64_PAD :: char where
  "BASE64_PAD = CHR ''=''"

text \<open>
  \<open>binascii_find_valid(s, slen, num)\<close>: the \<open>(num+1)\<close>-th character of \<open>s\<close> that is a
  base64 character, the pad character counting as one.
\<close>

fun binascii_find_valid :: "string \<Rightarrow> nat \<Rightarrow> char option" where
  "binascii_find_valid [] num = None"
| "binascii_find_valid (c # s) num =
     (if (of_char c :: nat) \<le> 127 \<and> (c = BASE64_PAD \<or> table_a2b_base64 c \<noteq> None)
      then (if num = 0 then Some c else binascii_find_valid s (num - 1))
      else binascii_find_valid s num)"

text \<open>
  The main loop of \<open>a2b_base64\<close>, with its variables \<open>quad_pos\<close>, \<open>leftchar\<close>,
  \<open>leftbits\<close> and the output written so far.  It returns the final \<open>leftbits\<close> and the
  output.  \<open>leftchar\<close> holds fewer than 14 bits at any time, so the shifts and masks
  of the C code are written as multiplication, division and remainder.
\<close>

fun a2b_loop :: "nat \<Rightarrow> nat \<Rightarrow> nat \<Rightarrow> string \<Rightarrow> string \<Rightarrow> nat \<times> string" where
  "a2b_loop quad_pos leftchar leftbits [] bin = (leftbits, bin)"
| "a2b_loop quad_pos leftchar leftbits (c # ascii) bin =
     (if (of_char c :: nat) > 127 \<or> c = CHR 0x0D \<or> c = CHR 0x0A \<or> c = CHR '' ''
      then a2b_loop quad_pos leftchar leftbits ascii bin
      else if c = BASE64_PAD
      then (if quad_pos < 2 \<or>
               (quad_pos = 2 \<and> binascii_find_valid (c # ascii) 1 \<noteq> Some BASE64_PAD)
            then a2b_loop quad_pos leftchar leftbits ascii bin
            else (0, bin))
      else (case table_a2b_base64 c of
              None \<Rightarrow> a2b_loop quad_pos leftchar leftbits ascii bin
            | Some this_ch \<Rightarrow>
                (let quad_pos' = (quad_pos + 1) mod 4;
                     leftchar' = leftchar * 64 + this_ch;
                     leftbits' = leftbits + 6
                 in if leftbits' \<ge> 8
                    then a2b_loop quad_pos' (leftchar' mod 2 ^ (leftbits' - 8)) (leftbits' - 8)
                           ascii (bin @ [char_of ((leftchar' div 2 ^ (leftbits' - 8)) mod 256)])
                    else a2b_loop quad_pos' leftchar' leftbits' ascii bin)))"

definition b64decode :: "string \<Rightarrow> string result" where
  "b64decode s =
     (case a2b_loop 0 0 0 s [] of
        (leftbits, bin) \<Rightarrow> if leftbits \<noteq> 0 then Raise TypeError else Return bin)"

section \<open>base64\_url\_decode\<close>

text \<open>
  \<open>unicode(inp)\<close> decodes a byte string with the ASCII codec and raises
  \<open>UnicodeDecodeError\<close> on a byte above 127.
\<close>

definition py_unicode :: "string \<Rightarrow> string result" where
  "py_unicode s = (if \<forall>c \<in> set s. (of_char c :: nat) \<le> 127 then Return s
                   else Raise UnicodeDecodeError)"

text \<open>The translation table \<open>dict(zip(map(ord, u'-_'), u'+/'))\<close>.\<close>

definition translate_char :: "char \<Rightarrow> char" where
  "translate_char c = (if c = CHR ''-'' then CHR ''+'' else if c = CHR ''_'' then CHR ''/'' else c)"

definition base64_url_decode :: "string \<Rightarrow> string result" where
  "base64_url_decode inp =
     (let padding_factor = (4 - length inp mod 4) mod 4;
          inp' = inp @ replicate padding_factor (CHR ''='')
      in case py_unicode inp' of
           Inl e \<Rightarrow> Raise e
         | Inr u \<Rightarrow> b64decode (map translate_char u))"

section \<open>HMAC-SHA256 of the standard library\<close>

text \<open>
  \<open>hashlib.sha256\<close> is SHA-256 of FIPS 180-4 on byte strings, with 32-bit words.
\<close>

definition sha256_K :: "32 word list" where
  "sha256_K =
     [0x428A2F98, 0x71374491, 0xB5C0FBCF, 0xE9B5DBA5, 0x3956C25B, 0x59F111F1,
      0x923F82A4, 0xAB1C5ED5, 0xD807AA98, 0x12835B01, 0x243185BE, 0x550C7DC3,
      0x72BE5D74, 0x80DEB1FE, 0x9BDC06A7, 0xC19BF174, 0xE49B69C1, 0xEFBE4786,
      0x0FC19DC6, 0x240CA1CC, 0x2DE92C6F, 0x4A7484AA, 0x5CB0A9DC, 0x76F988DA,
      0x983E5152, 0xA831C66D, 0xB00327C8, 0xBF597FC7, 0xC6E00BF3, 0xD5A79147,
      0x06CA6351, 0x14292967, 0x27B70A85, 0x2E1B2138, 0x4D2C6DFC, 0x53380D13,
      0x650A7354, 0x766A0ABB, 0x81C2C92E, 0x92722C85, 0xA2BFE8A1, 0xA81A664B,
      0xC24B8B70, 0xC76C51A3, 0xD192E819, 0xD6990624, 0xF40E3585, 0x106AA070,
      0x19A4C116, 0x1E376C08, 0x2748774C, 0x34B0BCB5, 0x391C0CB3, 0x4ED8AA4A,
      0x5B9CCA4F, 0x682E6FF3, 0x748F82EE, 0x78A5636F, 0x84C87814, 0x8CC70208,
      0x90BEFFFA, 0xA4506CEB, 0xBEF9A3F7, 0xC67178F2]"

definition sha256_H0 :: "32 word list" where
  "sha256_H0 =
     [0x6A09E667, 0xBB67AE85, 0x3C6EF372, 0xA54FF53A, 0x510E527F, 0x9B05688C,
      0x1F83D9AB, 0x5BE0CD19]"

definition Ch :: "32 word \<Rightarrow> 32 word \<Rightarrow> 32 word \<Rightarrow> 32 word" where
  "Ch x y z = (x AND y) XOR (NOT x AND z)"

definition Maj :: "32 word \<Rightarrow> 32 word \<Rightarrow> 32 word \<Rightarrow> 32 word" where
  "Maj x y z = (x AND y) XOR (x AND z) XOR (y AND z)"

definition Sigma0 :: "32 word \<Rightarrow> 32 word" where
  "Sigma0 x = word_rotr 2 x XOR word_rotr 13 x XOR word_rotr 22 x"

definition Sigma1 :: "32 word \<Rightarrow> 32 word" where
  "Sigma1 x = word_rotr 6 x XOR word_rotr 11 x XOR word_rotr 25 x"

definition sigma0 :: "32 word \<Rightarrow> 32 word" where
  "sigma0 x = word_rotr 7 x XOR word_rotr 18 x XOR drop_bit 3 x"

definition sigma1 :: "32 word \<Rightarrow> 32 word" where
  "sigma1 x = word_rotr 17 x XOR word_rotr 19 x XOR drop_bit 10 x"

text \<open>Big-endian conversions between bytes and words.\<close>

definition be_word :: "string \<Rightarrow> 32 word" where
  "be_word bs = foldl (\<lambda>w c. push_bit 8 w OR of_nat (of_char c)) 0 bs"

definition word_bytes :: "32 word \<Rightarrow> string" where
  "word_bytes w = map (\<lambda>i. char_of (unat (drop_bit (8 * i) w AND 0xff))) [3, 2, 1, 0]"

definition be_bytes64 :: "64 word \<Rightarrow> string" where
  "be_bytes64 w = map (\<lambda>i. char_of (unat (drop_bit (8 * i) w AND 0xff))) [7, 6, 5, 4, 3, 2, 1, 0]"

text \<open>
  Padding: a one bit, zero bits up to 56 modulo 64 bytes, and the length in bits as a
  64-bit big-endian number.
\<close>

definition sha256_pad :: "string \<Rightarrow> string" where
  "sha256_pad m =
     m @ [CHR 0x80] @ replicate ((55 + 64 - length m mod 64) mod 64) (CHR 0x00)
       @ be_bytes64 (8 * of_nat (length m))"

fun chunks :: "nat \<Rightarrow> nat \<Rightarrow> 'a list \<Rightarrow> 'a list list" where
  "chunks 0 k xs = []"
| "chunks (Suc n) k xs = take k xs # chunks n k (drop k xs)"

text \<open>The message schedule: sixteen words of the block, extended to sixty-four.\<close>

fun sha256_extend :: "nat \<Rightarrow> 32 word list \<Rightarrow> 32 word list" where
  "sha256_extend 0 w = w"
| "sha256_extend (Suc n) w =
     (let t = length w
      in sha256_extend n
           (w @ [sigma1 (w ! (t - 2)) + w ! (t - 7) + sigma0 (w ! (t - 15)) + w ! (t - 16)]))"

definition sha256_schedule :: "string \<Rightarrow> 32 word list" where
  "sha256_schedule block = sha256_extend 48 (map be_word (chunks 16 4 block))"

definition sha256_round :: "32 word list \<Rightarrow> 32 word \<times> 32 word \<Rightarrow> 32 word list" where
  "sha256_round v kw =
     (let a = v ! 0; b = v ! 1; c = v ! 2; d = v ! 3;
          e = v ! 4; f = v ! 5; g = v ! 6; h = v ! 7;
          T1 = h + Sigma1 e + Ch e f g + fst kw + snd kw;
          T2 = Sigma0 a + Maj a b c
      in [T1 + T2, a, b, c, d + T1, e, f, g])"

definition sha256_compress :: "32 word list \<Rightarrow> string \<Rightarrow> 32 word list" where
  "sha256_compress hs block =
     map2 (+) hs (foldl sha256_round hs (zip sha256_K (sha256_schedule block)))"

definition sha256 :: "string \<Rightarrow> string" where
  "sha256 m =
     (let p = sha256_pad m
      in concat (map word_bytes (foldl sha256_compress sha256_H0 (chunks (length p div 64) 64 p))))"

text \<open>
  \<open>hmac.new(key, msg, hashlib.sha256).digest()\<close>: a key longer than the block size of
  64 bytes is hashed first, the key is then filled with zero bytes up to the block size,
  and the digest is \<open>H((key xor 0x5C..) + H((key xor 0x36..) + msg))\<close>.
\<close>

definition xor_byte :: "nat \<Rightarrow> char \<Rightarrow> char" where
  "xor_byte p c = char_of ((of_char c :: nat) XOR p)"

definition hmac_block_key :: "string \<Rightarrow> string" where
  "hmac_block_key key =
     (let blocksize = 64;
          key1 = (if length key > blocksize then sha256 key else key)
      in key1 @ replicate (blocksize - length key1) (CHR 0x00))"

definition hmac_sha256 :: "string \<Rightarrow> string \<Rightarrow> string" where
  "hmac_sha256 key msg =
     (let key2 = hmac_block_key key;
          inner = sha256 (map (xor_byte 0x36) key2 @ msg)
      in sha256 (map (xor_byte 0x5C) key2 @ inner))"

section \<open>A JSON decoder\<close>

text \<open>
  The decoder that the module binds to \<open>_parse_json\<close> is \<open>simplejson.loads\<close>.  The
  functions of the module take it as an argument; \<open>simplejson_loads\<close> below is the
  decoder used wherever a concrete one is needed.  It follows the grammar that
  simplejson accepts: the JSON grammar, the constants \<open>NaN\<close>, \<open>Infinity\<close> and
  \<open>-Infinity\<close>, no control character inside a string, text in UTF-8.  Every failure
  of the decoder is a \<open>ValueError\<close> (\<open>JSONDecodeError\<close> and the decoding error of a
  byte sequence that is not UTF-8 are both subclasses of it).
\<close>

definition is_ws :: "char \<Rightarrow> bool" where
  "is_ws c = (c = CHR '' '' \<or> c = CHR 0x09 \<or> c = CHR 0x0A \<or> c = CHR 0x0D)"

definition skip_ws :: "string \<Rightarrow> string" where
  "skip_ws s = dropWhile is_ws s"

definition is_digit :: "char \<Rightarrow> bool" where
  "is_digit c = (48 \<le> (of_char c :: nat) \<and> (of_char c :: nat) \<le> 57)"

definition strip_prefix :: "string \<Rightarrow> string \<Rightarrow> string option" where
  "strip_prefix p s = (if take (length p) s = p then Some (drop (length p) s) else None)"

definition hex_val :: "char \<Rightarrow> nat option" where
  "hex_val c =
     (let n = (of_char c :: nat) in
      if 48 \<le> n \<and> n \<le> 57 then Some (n - 48)
      else if 65 \<le> n \<and> n \<le> 70 then Some (n - 55)
      else if 97 \<le> n \<and> n \<le> 102 then Some (n - 87)
      else None)"

definition hex4 :: "char \<Rightarrow> char \<Rightarrow> char \<Rightarrow> char \<Rightarrow> nat option" where
  "hex4 a b c d =
     (case (hex_val a, hex_val b, hex_val c, hex_val d) of
        (Some x, Some y, Some z, Some w) \<Rightarrow> Some (((x * 16 + y) * 16 + z) * 16 + w)
      | _ \<Rightarrow> None)"

text \<open>The UTF-8 bytes of a code point.\<close>

definition utf8_encode :: "nat \<Rightarrow> string" where
  "utf8_encode n =
     (if n < 0x80 then [char_of n]
      else if n < 0x800 then [char_of (0xC0 + n div 64), char_of (0x80 + n mod 64)]
      else if n < 0x10000
      then [char_of (0xE0 + n div 4096), char_of (0x80 + (n div 64) mod 64), char_of (0x80 + n mod 64)]
      else [char_of (0xF0 + n div 262144), char_of (0x80 + (n div 4096) mod 64),
            char_of (0x80 + (n div 64) mod 64), char_of (0x80 + n mod 64)])"

definition is_cont :: "char \<Rightarrow> bool" where
  "is_cont c = (0x80 \<le> (of_char c :: nat) \<and> (of_char c :: nat) \<le> 0xBF)"

text \<open>
  Well-formed UTF-8 as the codec of Python 2 reads it: no overlong form, nothing above
  U+10FFFF; the encodings of surrogates are accepted.
\<close>

fun utf8_valid :: "string \<Rightarrow> bool" where
  "utf8_valid [] = True"
| "utf8_valid (c # cs) =
     (let n = (of_char c :: nat) in
      if n < 0x80 then utf8_valid cs
      else if 0xC2 \<le> n \<and> n \<le> 0xDF
      then (case cs of
              d # r \<Rightarrow> is_cont d \<and> utf8_valid r
            | _ \<Rightarrow> False)
      else if 0xE0 \<le> n \<and> n \<le> 0xEF
      then (case cs of
              d # e # r \<Rightarrow>
                is_cont d \<and> is_cont e \<and> (n = 0xE0 \<longrightarrow> 0xA0 \<le> (of_char d :: nat)) \<and> utf8_valid r
            | _ \<Rightarrow> False)
      else if 0xF0 \<le> n \<and> n \<le> 0xF4
      then (case cs of
              d # e # f # r \<Rightarrow>
                is_cont d \<and> is_cont e \<and> is_cont f
                \<and> (n = 0xF0 \<longrightarrow> 0x90 \<le> (of_char d :: nat))
                \<and> (n = 0xF4 \<longrightarrow> (of_char d :: nat) \<le> 0x8F) \<and> utf8_valid r
            | _ \<Rightarrow> False)
      else False)"

definition escape_char :: "char \<Rightarrow> char option" where
  "escape_char c =
     (if c = CHR 0x22 then Some (CHR 0x22)
      else if c = CHR 0x5C then Some (CHR 0x5C)
      else if c = CHR ''/'' then Some (CHR ''/'')
      else if c = CHR ''b'' then Some (CHR 0x08)
      else if c = CHR ''f'' then Some (CHR 0x0C)
      else if c = CHR ''n'' then Some (CHR 0x0A)
      else if c = CHR ''r'' then Some (CHR 0x0D)
      else if c = CHR ''t'' then Some (CHR 0x09)
      else None)"

text \<open>
  \<open>scanstring\<close>, entered after the opening quote: the text of the string so far, and
  the input.  The result is the text and the input after the closing quote.
\<close>

fun scanstring :: "string \<Rightarrow> string \<Rightarrow> (string \<times> string) option" where
  "scanstring acc [] = None"
| "scanstring acc (c # cs) =
     (if c = CHR 0x22 then (if utf8_valid acc then Some (acc, cs) else None)
      else if c = CHR 0x5C
      then (case cs of
              [] \<Rightarrow> None
            | esc # cs1 \<Rightarrow>
                if esc = CHR ''u''
                then (case cs1 of
                        h1 # h2 # h3 # h4 # cs2 \<Rightarrow>
                          (case hex4 h1 h2 h3 h4 of
                             None \<Rightarrow> None
                           | Some uni \<Rightarrow>
                               (case cs2 of
                                  b # u # l1 # l2 # l3 # l4 # cs3 \<Rightarrow>
                                    (case hex4 l1 l2 l3 l4 of
                                       Some uni2 \<Rightarrow>
                                         if b = CHR 0x5C \<and> u = CHR ''u''
                                            \<and> 0xD800 \<le> uni \<and> uni \<le> 0xDBFF
                                            \<and> 0xDC00 \<le> uni2 \<and> uni2 \<le> 0xDFFF
                                         then scanstring
                                                (acc @ utf8_encode
                                                   (0x10000 + (uni - 0xD800) * 1024 + (uni2 - 0xDC00)))
                                                cs3
                                         else scanstring (acc @ utf8_encode uni) cs2
                                     | None \<Rightarrow> scanstring (acc @ utf8_encode uni) cs2)
                                | _ \<Rightarrow> scanstring (acc @ utf8_encode uni) cs2))
                      | _ \<Rightarrow> None)
                else (case escape_char esc of
                        None \<Rightarrow> None
                      | Some ch \<Rightarrow> scanstring (acc @ [ch]) cs1))
      else if (of_char c :: nat) < 0x20 then None
      else scanstring (acc @ [c]) cs)"

text \<open>
  A number literal, \<open>(-?(?:0|[1-9]\d*))(\.\d+)?([eE][-+]?\d+)?\<close>: the integer part,
  then a fraction and an exponent if they are complete.
\<close>

definition scan_int_part :: "string \<Rightarrow> (string \<times> string) option" where
  "scan_int_part s =
     (let (sign, s1) = (case s of c # r \<Rightarrow> if c = CHR ''-'' then ([c], r) else ([], s) | [] \<Rightarrow> ([], s))
      in case s1 of
           [] \<Rightarrow> None
         | d # r \<Rightarrow>
             if d = CHR ''0'' then Some (sign @ [d], r)
             else if is_digit d then Some (sign @ d # takeWhile is_digit r, dropWhile is_digit r)
             else None)"

definition scan_frac :: "string \<Rightarrow> string \<times> string" where
  "scan_frac s =
     (case s of
        p # d # r \<Rightarrow>
          if p = CHR ''.'' \<and> is_digit d
          then (p # d # takeWhile is_digit r, dropWhile is_digit r) else ([], s)
      | _ \<Rightarrow> ([], s))"

definition scan_exp :: "string \<Rightarrow> string \<times> string" where
  "scan_exp s =
     (case s of
        e # r \<Rightarrow>
          if e = CHR ''e'' \<or> e = CHR ''E''
          then (case r of
                  g # r1 \<Rightarrow>
                    if g = CHR ''-'' \<or> g = CHR ''+''
                    then (case r1 of
                            d # r2 \<Rightarrow>
                              if is_digit d
                              then (e # g # d # takeWhile is_digit r2, dropWhile is_digit r2)
                              else ([], s)
                          | [] \<Rightarrow> ([], s))
                    else if is_digit g
                    then (e # g # takeWhile is_digit r1, dropWhile is_digit r1)
                    else ([], s)
                | [] \<Rightarrow> ([], s))
          else ([], s)
      | [] \<Rightarrow> ([], s))"

definition digits_int :: "string \<Rightarrow> int" where
  "digits_int ds = foldl (\<lambda>n c. 10 * n + ((of_char c :: int) - 48)) 0 ds"

definition int_of_literal :: "string \<Rightarrow> int" where
  "int_of_literal s =
     (case s of
        c # r \<Rightarrow> if c = CHR ''-'' then - digits_int r else digits_int s
      | [] \<Rightarrow> 0)"

definition scan_number :: "string \<Rightarrow> (json \<times> string) option" where
  "scan_number s =
     (case scan_int_part s of
        None \<Rightarrow> None
      | Some (integer, r) \<Rightarrow>
          (let (frac, r1) = scan_frac r;
               (exp, r2) = scan_exp r1
           in if frac \<noteq> [] \<or> exp \<noteq> [] then Some (JFloat (integer @ frac @ exp), r2)
              else Some (JInt (int_of_literal integer), r2)))"

text \<open>\<open>dict(pairs)\<close>: a later pair with the same key replaces the value.\<close>

fun dict_set :: "'k \<Rightarrow> 'v \<Rightarrow> ('k \<times> 'v) list \<Rightarrow> ('k \<times> 'v) list" where
  "dict_set k v [] = [(k, v)]"
| "dict_set k v ((k', v') # items) =
     (if k = k' then (k, v) # items else (k', v') # dict_set k v items)"

text \<open>
  \<open>scan_once\<close> with the loops of \<open>JSONArray\<close> and \<open>JSONObject\<close>.  The first
  argument bounds the number of nested calls; each call consumes input, so the length
  of the document is enough.
\<close>

fun scan_once :: "nat \<Rightarrow> string \<Rightarrow> (json \<times> string) option"
  and JSONArray :: "nat \<Rightarrow> json list \<Rightarrow> string \<Rightarrow> (json \<times> string) option"
  and JSONObject :: "nat \<Rightarrow> (string \<times> json) list \<Rightarrow> string \<Rightarrow> (json \<times> string) option"
where
  "scan_once 0 s = None"
| "scan_once (Suc n) [] = None"
| "scan_once (Suc n) (c # cs) =
     (if c = CHR 0x22
      then (case scanstring [] cs of None \<Rightarrow> None | Some (t, r) \<Rightarrow> Some (JString t, r))
      else if c = CHR ''{''
      then (case skip_ws cs of
              [] \<Rightarrow> None
            | d # r \<Rightarrow> if d = CHR ''}'' then Some (JObject [], r)
                       else JSONObject n [] (d # r))
      else if c = CHR ''[''
      then (case skip_ws cs of
              [] \<Rightarrow> None
            | d # r \<Rightarrow> if d = CHR '']'' then Some (JArray [], r)
                       else JSONArray n [] (d # r))
      else (case strip_prefix ''null'' (c # cs) of Some r \<Rightarrow> Some (JNull, r) | None \<Rightarrow>
           (case strip_prefix ''true'' (c # cs) of Some r \<Rightarrow> Some (JBool True, r) | None \<Rightarrow>
           (case strip_prefix ''false'' (c # cs) of Some r \<Rightarrow> Some (JBool False, r) | None \<Rightarrow>
           (case scan_number (c # cs) of Some res \<Rightarrow> Some res | None \<Rightarrow>
           (case strip_prefix ''NaN'' (c # cs) of Some r \<Rightarrow> Some (JFloat ''NaN'', r) | None \<Rightarrow>
           (case strip_prefix ''Infinity'' (c # cs) of Some r \<Rightarrow> Some (JFloat ''Infinity'', r) | None \<Rightarrow>
           (case strip_prefix ''-Infinity'' (c # cs) of Some r \<Rightarrow> Some (JFloat ''-Infinity'', r)
            | None \<Rightarrow> None))))))))"
| "JSONArray 0 values s = None"
| "JSONArray (Suc n) values s =
     (case scan_once n s of
        None \<Rightarrow> None
      | Some (v, r) \<Rightarrow>
          (case skip_ws r of
             [] \<Rightarrow> None
           | d # r1 \<Rightarrow>
               if d = CHR '']'' then Some (JArray (values @ [v]), r1)
               else if d = CHR '','' then JSONArray n (values @ [v]) (skip_ws r1)
               else None))"
| "JSONObject 0 pairs s = None"
| "JSONObject (Suc n) pairs s =
     (case s of
        [] \<Rightarrow> None
      | q # s1 \<Rightarrow>
          if q \<noteq> CHR 0x22 then None
          else
            (case scanstring [] s1 of
               None \<Rightarrow> None
             | Some (key, r) \<Rightarrow>
                 (case skip_ws r of
                    [] \<Rightarrow> None
                  | colon # r1 \<Rightarrow>
                      if colon \<noteq> CHR '':'' then None
                      else
                        (case scan_once n (skip_ws r1) of
                           None \<Rightarrow> None
                         | Some (v, r2) \<Rightarrow>
                             (case skip_ws r2 of
                                [] \<Rightarrow> None
                              | d # r3 \<Rightarrow>
                                  if d = CHR ''}'' then Some (JObject (dict_set key v pairs), r3)
                                  else if d = CHR '',''
                                  then JSONObject n (dict_set key v pairs) (skip_ws r3)
                                  else None)))))"

definition simplejson_loads :: "string \<Rightarrow> json result" where
  "simplejson_loads s =
     (case scan_once (Suc (length s)) (skip_ws s) of
        None \<Rightarrow> Raise ValueError
      | Some (obj, r) \<Rightarrow> if skip_ws r = [] then Return obj else Raise ValueError)"

section \<open>parse\_signed\_request\<close>

text \<open>
  \<open>s.split(sep, 1)\<close>: at most one split, at the first separator.  The result has two
  elements when the separator occurs and one otherwise.
\<close>

definition py_split1 :: "char \<Rightarrow> string \<Rightarrow> string list" where
  "py_split1 sep s =
     (if sep \<in> set s
      then [takeWhile (\<lambda>c. c \<noteq> sep) s, tl (dropWhile (\<lambda>c. c \<noteq> sep) s)]
      else [s])"

text \<open>
  \<open>data.get(key)\<close>: defined on a dict only, where it yields \<open>None\<close> for a missing
  key; any other value has no attribute \<open>get\<close>.
\<close>

definition py_get :: "json \<Rightarrow> string \<Rightarrow> json result" where
  "py_get data key =
     (case data of
        JObject items \<Rightarrow> (case map_of items key of None \<Rightarrow> Return JNull | Some v \<Rightarrow> Return v)
      | _ \<Rightarrow> Raise AttributeError)"

text \<open>
  \<open>x.upper()\<close>: defined on a text value only.  The ASCII letters are mapped to upper
  case.  A character outside ASCII is left as it is, except the two whose upper case is
  an ASCII letter (U+0131 and U+017F, here in UTF-8): upper-casing any other one yields
  a character outside ASCII again, which the comparison with an ASCII literal that
  follows in the code cannot tell from the original.
\<close>

definition upper_char :: "char \<Rightarrow> char" where
  "upper_char c =
     (if 97 \<le> (of_char c :: nat) \<and> (of_char c :: nat) \<le> 122
      then char_of ((of_char c :: nat) - 32) else c)"

fun upper_str :: "string \<Rightarrow> string" where
  "upper_str [] = []"
| "upper_str [c] = [upper_char c]"
| "upper_str (c # d # cs) =
     (if c = CHR 0xC4 \<and> d = CHR 0xB1 then CHR ''I'' # upper_str cs
      else if c = CHR 0xC5 \<and> d = CHR 0xBF then CHR ''S'' # upper_str cs
      else upper_char c # upper_str (d # cs))"

definition py_upper :: "json \<Rightarrow> string result" where
  "py_upper x = (case x of JString s \<Rightarrow> Return (upper_str s) | _ \<Rightarrow> Raise AttributeError)"

text \<open>
  The function returns the messages it wrote to the logger \<open>facebook\<close> together with
  its outcome: an exception, \<open>None\<close>, or the decoded payload.  The JSON decoder
  \<open>_parse_json\<close> is bound when the module is loaded, to whichever library is
  installed, so the model takes it as its first argument.  \<open>signed_request\<close> is
  \<open>None\<close> when the caller passes no token at all.

  \<open>parse_signed_request_segments\<close> is the body of the function from the decoding of
  the two segments on, that is what follows the \<open>try\<close> statement around the split.
\<close>

definition parse_signed_request_segments ::
  "(string \<Rightarrow> json result) \<Rightarrow> string \<Rightarrow> string \<Rightarrow> string \<Rightarrow> string list \<times> json option result"
where
  "parse_signed_request_segments parse_json encoded_sig payload secret =
     (case base64_url_decode encoded_sig of
        Inl e \<Rightarrow> ([], Raise e)
      | Inr sig \<Rightarrow>
     (case base64_url_decode payload of
        Inl e \<Rightarrow> ([], Raise e)
      | Inr raw \<Rightarrow>
     (case parse_json raw of
        Inl e \<Rightarrow> ([], Raise e)
      | Inr data \<Rightarrow>
     (case py_get data ''algorithm'' of
        Inl e \<Rightarrow> ([], Raise e)
      | Inr alg \<Rightarrow>
     (case py_upper alg of
        Inl e \<Rightarrow> ([], Raise e)
      | Inr u \<Rightarrow>
          if u \<noteq> ''HMAC-SHA256''
          then ([''Unknown algorithm. Expected HMAC-SHA256''], Return None)
          else
            (let expected_sig = hmac_sha256 secret payload
             in if sig = expected_sig then ([], Return (Some data))
                else ([''Bad Signed JSON signature!''], Return None)))))))"

definition parse_signed_request ::
  "(string \<Rightarrow> json result) \<Rightarrow> string option \<Rightarrow> string \<Rightarrow> string list \<times> json option result"
where
  "parse_signed_request parse_json signed_request secret =
     (case signed_request of
        None \<Rightarrow> ([], Return None)
      | Some sr \<Rightarrow>
          if sr = [] then ([], Return None)
          else
            (case py_split1 (CHR ''.'') sr of
               [encoded_sig, payload] \<Rightarrow>
                 parse_signed_request_segments parse_json encoded_sig payload secret
             | _ \<Rightarrow> ([''Not a valid signed_request.''], Return None)))"

section \<open>get\_user\_from\_cookie\<close>

definition get_user_from_cookie ::
  "(string \<Rightarrow> json result) \<Rightarrow> (string \<rightharpoonup> string) \<Rightarrow> string \<Rightarrow> string
     \<Rightarrow> string list \<times> json option result"
where
  "get_user_from_cookie parse_json cookies app_id app_secret =
     (let signed_request = (case cookies (''fbsr_'' @ app_id) of None \<Rightarrow> [] | Some v \<Rightarrow> v)
      in if signed_request = [] then ([], Return None)
         else parse_signed_request parse_json (Some signed_request) app_secret)"

section \<open>GraphAPI\<close>

record GraphAPI =
  access_token :: "string option"

text \<open>
  The functions of \<open>urllib\<close> and \<open>urllib2\<close> that \<open>request\<close> calls.  \<open>urlopen\<close>
  yields the body of the response or raises.  A dict of arguments is a list of its
  items.
\<close>

record urllib =
  urlencode :: "(string \<times> string) list \<Rightarrow> string"
  urlopen :: "string \<Rightarrow> string option \<Rightarrow> string result"

type_synonym http_call = "string \<times> string option"

definition truthy_token :: "string option \<Rightarrow> bool" where
  "truthy_token t = (case t of None \<Rightarrow> False | Some s \<Rightarrow> s \<noteq> [])"

text \<open>
  The truth value of a float literal: false when the double it denotes is zero, that
  is when its digits are all zero or its value is at most \<open>2 ^ -1075\<close>, half of the
  smallest positive double.
\<close>

definition float_nonzero :: "string \<Rightarrow> bool" where
  "float_nonzero s =
     (if s = ''NaN'' \<or> s = ''Infinity'' \<or> s = ''-Infinity'' then True
      else
        (let s1 = (case s of c # r \<Rightarrow> if c = CHR ''-'' then r else s | [] \<Rightarrow> s);
             ip = takeWhile is_digit s1;
             r1 = dropWhile is_digit s1;
             fp = (case r1 of c # r \<Rightarrow> if c = CHR ''.'' then takeWhile is_digit r else [] | [] \<Rightarrow> []);
             r2 = (case r1 of c # r \<Rightarrow> if c = CHR ''.'' then dropWhile is_digit r else r1 | [] \<Rightarrow> []);
             ex = (case r2 of
                     e # g # r \<Rightarrow>
                       if g = CHR ''-'' then - digits_int r
                       else if g = CHR ''+'' then digits_int r
                       else digits_int (g # r)
                   | _ \<Rightarrow> 0);
             D = digits_int (ip @ fp);
             E = ex - int (length fp)
         in D \<noteq> 0 \<and> (E \<ge> 0 \<or> D * 2 ^ 1075 > 10 ^ nat (- E))))"

fun py_truthy :: "json \<Rightarrow> bool" where
  "py_truthy JNull = False"
| "py_truthy (JBool b) = b"
| "py_truthy (JInt n) = (n \<noteq> 0)"
| "py_truthy (JFloat s) = float_nonzero s"
| "py_truthy (JString s) = (s \<noteq> [])"
| "py_truthy (JArray xs) = (xs \<noteq> [])"
| "py_truthy (JObject items) = (items \<noteq> [])"

text \<open>\<open>x[key]\<close> with a string key.\<close>

definition py_getitem :: "json \<Rightarrow> string \<Rightarrow> json result" where
  "py_getitem x key =
     (case x of
        JObject items \<Rightarrow> (case map_of items key of None \<Rightarrow> Raise KeyError | Some v \<Rightarrow> Return v)
      | _ \<Rightarrow> Raise TypeError)"

text \<open>
  \<open>request\<close> returns the calls of \<open>urlopen\<close> it made, each with its URL and POST
  data, together with its outcome.  It makes one call, whose response decides the
  outcome.
\<close>

definition request ::
  "(string \<Rightarrow> json result) \<Rightarrow> urllib \<Rightarrow> GraphAPI \<Rightarrow> string
     \<Rightarrow> (string \<times> string) list option \<Rightarrow> (string \<times> string) list option
     \<Rightarrow> http_call list \<times> json result"
where
  "request parse_json lib self path args post_args =
     (let args1 = (case args of None \<Rightarrow> [] | Some a \<Rightarrow> a);
          token = (case access_token self of None \<Rightarrow> [] | Some tok \<Rightarrow> tok);
          args2 = (if token \<noteq> [] \<and> post_args = None
                   then dict_set ''access_token'' token args1 else args1);
          post_args2 = (case post_args of
                          None \<Rightarrow> None
                        | Some p \<Rightarrow> if token \<noteq> [] then Some (dict_set ''access_token'' token p)
                                    else Some p);
          post_data = (case post_args2 of None \<Rightarrow> None | Some p \<Rightarrow> Some (urlencode lib p));
          url = ''https://graph.facebook.com/'' @ path @ ''?'' @ urlencode lib args2
      in ([(url, post_data)],
          case urlopen lib url post_data of
            Inl e \<Rightarrow> Raise e
          | Inr body \<Rightarrow>
              (case parse_json body of
                 Inl e \<Rightarrow> Raise e
               | Inr response \<Rightarrow>
                   (case response of
                      JObject items \<Rightarrow>
                        (case map_of items ''error'' of
                           None \<Rightarrow> Return response
                         | Some err \<Rightarrow>
                             if py_truthy err
                             then (case py_getitem err ''type'' of
                                     Inl e \<Rightarrow> Raise e
                                   | Inr ty \<Rightarrow>
                                       (case py_getitem err ''message'' of
                                          Inl e \<Rightarrow> Raise e
                                        | Inr msg \<Rightarrow> Raise (GraphAPIError ty msg)))
                             else Return response)
                    | _ \<Rightarrow> Return response))))"

definition put_object ::
  "(string \<Rightarrow> json result) \<Rightarrow> urllib \<Rightarrow> GraphAPI \<Rightarrow> string \<Rightarrow> string
     \<Rightarrow> (string \<times> string) list \<Rightarrow> http_call list \<times> json result"
where
  "put_object parse_json lib self parent_object connection_name data =
     (if \<not> truthy_token (access_token self) then ([], Raise AssertionError)
      else request parse_json lib self (parent_object @ ''/'' @ connection_name) None (Some data))"

section \<open>The signed token of the specification\<close>

text \<open>
  The specification states two laws about \<open>encode(m, k)\<close>, the construction of a
  validly signed token, which the module itself does not contain.  The definitions of
  this section follow the words of the specification: the JSON text is encoded in
  base64url without padding, the encoded payload is signed with HMAC-SHA256 under the
  key, the signature is encoded in base64url, and the two are joined as \<open>sig.payload\<close>.
\<close>

definition base64url_char :: "nat \<Rightarrow> char" where
  "base64url_char v =
     (if v < 26 then char_of (65 + v)
      else if v < 52 then char_of (71 + v)
      else if v < 62 then char_of (v - 4)
      else if v = 62 then CHR ''-''
      else CHR ''_'')"

fun base64url_encode :: "string \<Rightarrow> string" where
  "base64url_encode [] = []"
| "base64url_encode [a] =
     (let x = (of_char a :: nat)
      in [base64url_char (x div 4), base64url_char ((x mod 4) * 16)])"
| "base64url_encode [a, b] =
     (let x = (of_char a :: nat); y = (of_char b :: nat)
      in [base64url_char (x div 4), base64url_char ((x mod 4) * 16 + y div 16),
          base64url_char ((y mod 16) * 4)])"
| "base64url_encode (a # b # c # bs) =
     (let x = (of_char a :: nat); y = (of_char b :: nat); z = (of_char c :: nat)
      in [base64url_char (x div 4), base64url_char ((x mod 4) * 16 + y div 16),
          base64url_char ((y mod 16) * 4 + z div 64), base64url_char (z mod 64)]
         @ base64url_encode bs)"

definition encode_signed_request :: "string \<Rightarrow> string \<Rightarrow> string" where
  "encode_signed_request m k =
     (let payload = base64url_encode m
      in base64url_encode (hmac_sha256 k payload) @ ''.'' @ payload)"

section \<open>Properties of the token format\<close>

lemma py_split1_none: "sep \<notin> set s \<Longrightarrow> py_split1 sep s = [s]"
  by (simp add: py_split1_def)

lemma takeWhile_until:
  "sep \<notin> set a \<Longrightarrow> takeWhile (\<lambda>c. c \<noteq> sep) (a @ sep # b) = a"
  by (induction a) auto

lemma dropWhile_until:
  "sep \<notin> set a \<Longrightarrow> dropWhile (\<lambda>c. c \<noteq> sep) (a @ sep # b) = sep # b"
  by (induction a) auto

lemma py_split1_first: "sep \<notin> set a \<Longrightarrow> py_split1 sep (a @ sep # b) = [a, b]"
  by (simp add: py_split1_def takeWhile_until dropWhile_until)

lemma parse_signed_request_split:
  "CHR ''.'' \<notin> set a \<Longrightarrow>
   parse_signed_request pj (Some (a @ CHR ''.'' # b)) secret = parse_signed_request_segments pj a b secret"
  by (simp add: parse_signed_request_def py_split1_first)

lemma parse_signed_request_no_dot:
  "CHR ''.'' \<notin> set s \<Longrightarrow> s \<noteq> [] \<Longrightarrow>
   parse_signed_request pj (Some s) secret = ([''Not a valid signed_request.''], Return None)"
  by (simp add: parse_signed_request_def py_split1_none)

lemma base64_url_decode_raises:
  "base64_url_decode x = Raise e \<Longrightarrow> e = TypeError \<or> e = UnicodeDecodeError"
  by (auto simp: base64_url_decode_def py_unicode_def b64decode_def Let_def split: if_splits prod.splits)

lemma decode_AA: "base64_url_decode ''AA'' = Return [CHR 0x00]"
  by code_simp

lemma decode_e30: "base64_url_decode ''e30'' = Return ''{}''"
  by code_simp

lemma loads_empty_object: "simplejson_loads ''{}'' = Return (JObject [])"
  by code_simp

section \<open>The structural gate\<close>

text \<open>
  Claim C7.  A token that is absent, empty, or without a \<open>.\<close> is rejected: the function
  returns \<open>None\<close>, after the message "Not a valid signed_request." when the token is
  not empty.  A token with a \<open>.\<close> is split once, at the first \<open>.\<close>: what precedes it
  is the signature segment and everything after it, further dots included, is the
  payload segment, and the result is that of the rest of the function on these two
  segments.
\<close>

theorem structural_gate:
  "parse_signed_request pj None secret = ([], Return None)
   \<and> parse_signed_request pj (Some []) secret = ([], Return None)
   \<and> (\<forall>s. CHR ''.'' \<notin> set s \<and> s \<noteq> [] \<longrightarrow>
          parse_signed_request pj (Some s) secret = ([''Not a valid signed_request.''], Return None))
   \<and> (\<forall>a b. CHR ''.'' \<notin> set a \<longrightarrow>
          py_split1 (CHR ''.'') (a @ ''.'' @ b) = [a, b]
          \<and> parse_signed_request pj (Some (a @ ''.'' @ b)) secret
              = parse_signed_request_segments pj a b secret)"
  by (simp add: parse_signed_request_no_dot parse_signed_request_split py_split1_first)
     (simp add: parse_signed_request_def)

theorem structural_gate_witness:
  "parse_signed_request simplejson_loads None ''shhh'' = ([], Return None)
   \<and> parse_signed_request simplejson_loads (Some []) ''shhh'' = ([], Return None)
   \<and> parse_signed_request simplejson_loads (Some ''AAe30'') ''shhh''
       = ([''Not a valid signed_request.''], Return None)
   \<and> py_split1 (CHR ''.'') ''AA.e30.x'' = [''AA'', ''e30.x'']
   \<and> parse_signed_request simplejson_loads (Some ''AA.e30.x'') ''shhh''
       = parse_signed_request_segments simplejson_loads ''AA'' ''e30.x'' ''shhh''"
proof -
  note g = structural_gate [of simplejson_loads "''shhh''"]
  have a: "CHR ''.'' \<notin> set ''AAe30'' \<and> ''AAe30'' \<noteq> []" by simp
  have b: "CHR ''.'' \<notin> set ''AA''" by simp
  from g a have 3: "parse_signed_request simplejson_loads (Some ''AAe30'') ''shhh''
       = ([''Not a valid signed_request.''], Return None)" by blast
  from g b have 4: "py_split1 (CHR ''.'') (''AA'' @ ''.'' @ ''e30.x'') = [''AA'', ''e30.x'']
     \<and> parse_signed_request simplejson_loads (Some (''AA'' @ ''.'' @ ''e30.x'')) ''shhh''
       = parse_signed_request_segments simplejson_loads ''AA'' ''e30.x'' ''shhh''" by blast
  from g 3 4 show ?thesis by simp
qed

section \<open>The algorithm gate\<close>

text \<open>
  Claim C1.  The specification wants a payload without the algorithm field rejected
  with a failure result.  In the code, \<open>data.get('algorithm')\<close> is \<open>None\<close> for such a
  payload and \<open>None.upper()\<close> raises: whenever both segments decode and the payload is
  a JSON object without the key \<open>algorithm\<close>, the function raises \<open>AttributeError\<close>
  and returns nothing.
\<close>

theorem missing_algorithm_raises:
  assumes "CHR ''.'' \<notin> set encoded_sig"
    and "base64_url_decode encoded_sig = Return sig"
    and "base64_url_decode payload = Return raw"
    and "parse_json raw = Return (JObject items)"
    and "map_of items ''algorithm'' = None"
  shows "parse_signed_request parse_json (Some (encoded_sig @ ''.'' @ payload)) secret
         = ([], Raise AttributeError)"
  using assms
  by (simp add: parse_signed_request_split parse_signed_request_segments_def py_get_def py_upper_def)

theorem missing_algorithm_raises_witness:
  "parse_signed_request simplejson_loads (Some ''AA.e30'') ''shhh'' = ([], Raise AttributeError)"
  using missing_algorithm_raises [where encoded_sig = "''AA''" and payload = "''e30''"
      and parse_json = simplejson_loads and items = "[]" and secret = "''shhh''",
      OF _ decode_AA decode_e30 loads_empty_object]
  by simp

section \<open>The cookie\<close>

text \<open>
  Claim C9.  \<open>get_user_from_cookie\<close> returns \<open>None\<close> when the cookies have no entry
  \<open>fbsr_<app_id>\<close> or an empty one, and otherwise the result of
  \<open>parse_signed_request\<close> on the value of that cookie and the application secret.
\<close>

theorem get_user_from_cookie_spec:
  "get_user_from_cookie parse_json cookies app_id app_secret
   = (if cookies (''fbsr_'' @ app_id) = None \<or> cookies (''fbsr_'' @ app_id) = Some []
      then ([], Return None)
      else parse_signed_request parse_json (cookies (''fbsr_'' @ app_id)) app_secret)"
  by (auto simp: get_user_from_cookie_def Let_def split: option.splits)

theorem get_user_from_cookie_spec_witness:
  "get_user_from_cookie simplejson_loads Map.empty ''42'' ''shhh'' = ([], Return None)
   \<and> get_user_from_cookie simplejson_loads [''fbsr_42'' \<mapsto> []] ''42'' ''shhh'' = ([], Return None)
   \<and> get_user_from_cookie simplejson_loads [''fbsr_42'' \<mapsto> ''AAe30''] ''42'' ''shhh''
       = parse_signed_request simplejson_loads (Some ''AAe30'') ''shhh''"
  using get_user_from_cookie_spec [of simplejson_loads Map.empty "''42''" "''shhh''"]
        get_user_from_cookie_spec [of simplejson_loads "[''fbsr_42'' \<mapsto> []]" "''42''" "''shhh''"]
        get_user_from_cookie_spec [of simplejson_loads "[''fbsr_42'' \<mapsto> ''AAe30'']" "''42''" "''shhh''"]
  by simp

section \<open>Writing to the graph\<close>

lemma request_one_call: "length (fst (request parse_json lib self path args post_args)) = 1"
  by (simp add: request_def Let_def)

text \<open>
  Claim C10.  Without an access token (absent or empty) \<open>put_object\<close> fails with an
  \<open>AssertionError\<close> and has made no request.  With an access token the assertion
  passes: the result is that of the request to \<open>parent_object/connection_name\<close> with
  the data as POST arguments, and exactly one request has been made.
\<close>

theorem put_object_requires_access_token:
  "(\<not> truthy_token (access_token self) \<longrightarrow>
      put_object parse_json lib self parent_object connection_name data = ([], Raise AssertionError))
   \<and> (truthy_token (access_token self) \<longrightarrow>
      put_object parse_json lib self parent_object connection_name data
        = request parse_json lib self (parent_object @ ''/'' @ connection_name) None (Some data)
      \<and> length (fst (put_object parse_json lib self parent_object connection_name data)) = 1)"
  by (simp add: put_object_def request_one_call)

theorem put_object_requires_access_token_witness:
  "put_object simplejson_loads \<lparr>urlencode = (\<lambda>items. []), urlopen = (\<lambda>url post_data. Return ''{}'')\<rparr>
      \<lparr>access_token = None\<rparr> ''me'' ''feed'' [] = ([], Raise AssertionError)
   \<and> put_object simplejson_loads \<lparr>urlencode = (\<lambda>items. []), urlopen = (\<lambda>url post_data. Return ''{}'')\<rparr>
      \<lparr>access_token = Some []\<rparr> ''me'' ''feed'' [] = ([], Raise AssertionError)
   \<and> length (fst (put_object simplejson_loads
        \<lparr>urlencode = (\<lambda>items. []), urlopen = (\<lambda>url post_data. Return ''{}'')\<rparr>
        \<lparr>access_token = Some ''tok''\<rparr> ''me'' ''feed'' [])) = 1"
proof -
  let ?lib = "\<lparr>urlencode = (\<lambda>items. []), urlopen = (\<lambda>url post_data. Return ''{}'')\<rparr>"
  have n: "\<not> truthy_token (access_token \<lparr>access_token = None\<rparr>)"
    by (simp add: truthy_token_def)
  have e: "\<not> truthy_token (access_token \<lparr>access_token = Some []\<rparr>)"
    by (simp add: truthy_token_def)
  have t: "truthy_token (access_token \<lparr>access_token = Some ''tok''\<rparr>)"
    by (simp add: truthy_token_def)
  from n put_object_requires_access_token
         [of "\<lparr>access_token = None\<rparr>" simplejson_loads ?lib "''me''" "''feed''" "[]"]
  have 1: "put_object simplejson_loads ?lib \<lparr>access_token = None\<rparr> ''me'' ''feed'' []
           = ([], Raise AssertionError)" by blast
  from e put_object_requires_access_token
         [of "\<lparr>access_token = Some []\<rparr>" simplejson_loads ?lib "''me''" "''feed''" "[]"]
  have 2: "put_object simplejson_loads ?lib \<lparr>access_token = Some []\<rparr> ''me'' ''feed'' []
           = ([], Raise AssertionError)" by blast
  from t put_object_requires_access_token
         [of "\<lparr>access_token = Some ''tok''\<rparr>" simplejson_loads ?lib "''me''" "''feed''" "[]"]
  have 3: "length (fst (put_object simplejson_loads ?lib \<lparr>access_token = Some ''tok''\<rparr>
             ''me'' ''feed'' [])) = 1" by blast
  from 1 2 3 show ?thesis by blast
qed

end
